theory Spec2Isabelle
  imports Complex_Main "HOL-Library.Sublist"
begin

section \<open>Python values\<close>

text \<open>
  The program is dynamically typed: whatever the provider's JSON holds reaches the
  arithmetic and the formatting unchecked. The values of \<open>response.json()\<close> are
  therefore kept as they are decoded. A number is modelled by its exact rational value
  (the binary64 rounding of Python's float arithmetic, infinities and NaN are outside
  the model); a dict is an association list whose first binding of a key counts.
  Text is \<open>string\<close>, one \<open>char\<close> per character.
\<close>

datatype json =
    JNull
  | JBool bool
  | JNum rat
  | JStr string
  | JArr "json list"
  | JObj "(string \<times> json) list"

text \<open>The exceptions of Python that the program can meet on such values.\<close>

datatype exn = AttributeError | TypeError | ValueError

text \<open>Sequencing of steps that may raise: the first exception ends the block.\<close>

definition bind_exn :: "exn + 'a \<Rightarrow> ('a \<Rightarrow> exn + 'b) \<Rightarrow> exn + 'b" where
  "bind_exn m f = (case m of Inl e \<Rightarrow> Inl e | Inr v \<Rightarrow> f v)"

text \<open>Python's truth value of an object, as \<open>if not x\<close> tests it.\<close>

fun falsy :: "json \<Rightarrow> bool" where
  "falsy JNull = True"
| "falsy (JBool b) = (\<not> b)"
| "falsy (JNum r) = (r = 0)"
| "falsy (JStr s) = (s = [])"
| "falsy (JArr xs) = (xs = [])"
| "falsy (JObj kvs) = (kvs = [])"

text \<open>\<open>d.get(key, default)\<close>: only a dict has the method.\<close>

definition lookup_or :: "(string \<times> json) list \<Rightarrow> string \<Rightarrow> json \<Rightarrow> json" where
  "lookup_or kvs k dflt = (case map_of kvs k of None \<Rightarrow> dflt | Some v \<Rightarrow> v)"

fun py_get :: "json \<Rightarrow> string \<Rightarrow> json \<Rightarrow> exn + json" where
  "py_get (JObj kvs) k dflt = Inr (lookup_or kvs k dflt)"
| "py_get _ k dflt = Inl AttributeError"



text \<open>
  An f-string field \<open>{x}\<close> is \<open>str(x)\<close>. A str is itself; what \<open>str\<close> prints for the
  other objects (the shortest repr of a float, the repr of a list) is no part of this
  program and is taken as the parameter \<open>py_str\<close>.
\<close>

definition fstr :: "(json \<Rightarrow> string) \<Rightarrow> json \<Rightarrow> string" where
  "fstr py_str v = (case v of JStr s \<Rightarrow> s | _ \<Rightarrow> py_str v)"

section \<open>Text\<close>

definition is_digit :: "char \<Rightarrow> bool" where
  "is_digit c = (c \<in> set ''0123456789'')"

definition digit_val :: "char \<Rightarrow> nat" where
  "digit_val c = of_char c - 48"

definition digit_char :: "nat \<Rightarrow> char" where
  "digit_char d = ''0123456789'' ! d"

definition nat_of_digits :: "string \<Rightarrow> nat" where
  "nat_of_digits s = foldl (\<lambda>a c. 10 * a + digit_val c) 0 s"

text \<open>The decimal digits of a number, as \<open>str(n)\<close> and the \<open>%d\<close>-like formats print them.\<close>

function show_nat :: "nat \<Rightarrow> string" where
  "show_nat n = (if n < 10 then [digit_char n] else show_nat (n div 10) @ [digit_char (n mod 10)])"
  by pat_completeness auto
termination
  by (relation "measure id") auto

declare show_nat.simps [simp del]

text \<open>Zero padding on the left to a width, as \<open>%02d\<close> and \<open>:06d\<close> do.\<close>

definition zfill :: "nat \<Rightarrow> string \<Rightarrow> string" where
  "zfill w s = replicate (w - length s) CHR ''0'' @ s"

text \<open>\<open>s.replace('Z', '+00:00')\<close> and \<open>s.replace(' ', 'T')\<close>: every occurrence.\<close>

definition replace_Z :: "string \<Rightarrow> string" where
  "replace_Z s = concat (map (\<lambda>c. if c = CHR ''Z'' then ''+00:00'' else [c]) s)"


definition endswith_Z :: "string \<Rightarrow> bool" where
  "endswith_Z s = (s \<noteq> [] \<and> last s = CHR ''Z'')"

text \<open>\<open>upper\<close>, \<open>lower\<close> and \<open>strip\<close> on ASCII text.\<close>

definition upper_char :: "char \<Rightarrow> char" where
  "upper_char c =
     (case map_of (zip ''abcdefghijklmnopqrstuvwxyz'' ''ABCDEFGHIJKLMNOPQRSTUVWXYZ'') c of
        None \<Rightarrow> c | Some u \<Rightarrow> u)"


definition upper :: "string \<Rightarrow> string" where
  "upper s = map upper_char s"




section \<open>Fixed-point formatting\<close>

text \<open>
  \<open>format(x, '.8f')\<close> prints the decimal nearest to the exact value of \<open>x\<close> with eight
  digits after the point, a tie going to the even digit, and keeps the sign of \<open>x\<close>
  (\<open>-0.00000000\<close> for a small negative number).
\<close>

definition round_half_even :: "rat \<Rightarrow> int" where
  "round_half_even x =
     (let f = \<lfloor>x\<rfloor>; r = x - of_int f
      in if r < 1 / 2 then f else if 1 / 2 < r then f + 1 else if even f then f else f + 1)"

definition format_f :: "nat \<Rightarrow> rat \<Rightarrow> string" where
  "format_f p x =
     (let n = nat (round_half_even (\<bar>x\<bar> * 10 ^ p))
      in (if x < 0 then ''-'' else []) @ show_nat (n div 10 ^ p) @ ''.''
           @ zfill p (show_nat (n mod 10 ^ p)))"

text \<open>
  The format applied to an object: a str refuses the code \<open>f\<close> with ValueError, and
  None, a list and a dict refuse every format string with TypeError.
\<close>

fun format_spec :: "nat \<Rightarrow> json \<Rightarrow> exn + string" where
  "format_spec p (JNum r) = Inr (format_f p r)"
| "format_spec p (JBool b) = Inr (format_f p (if b then 1 else 0))"
| "format_spec p (JStr s) = Inl ValueError"
| "format_spec p _ = Inl TypeError"

section \<open>Dates\<close>

text \<open>
  \<open>datetime\<close> objects, with the UTC offset of an aware one in microseconds.
  \<open>fromisoformat\<close> reads the format documented for \<open>datetime.fromisoformat\<close> of
  Python 3.7 to 3.10, the versions that need the program's replacement of \<open>Z\<close>:
  \<open>YYYY-MM-DD[*HH[:MM[:SS[.fff[fff]]]][+HH:MM[:SS[.ffffff]]]]\<close>, where \<open>*\<close> is any one
  character. \<open>None\<close> is its ValueError.
\<close>

record datetime =
  year :: nat
  month :: nat
  day :: nat
  hour :: nat
  minute :: nat
  second :: nat
  microsecond :: nat
  tzinfo :: "int option"

definition is_leap :: "nat \<Rightarrow> bool" where
  "is_leap y = (y mod 4 = 0 \<and> (y mod 100 \<noteq> 0 \<or> y mod 400 = 0))"

definition days_in_month :: "nat \<Rightarrow> nat \<Rightarrow> nat" where
  "days_in_month y m =
     (if m = 2 then (if is_leap y then 29 else 28)
      else if m = 4 \<or> m = 6 \<or> m = 9 \<or> m = 11 then 30 else 31)"

definition parse_isoformat_date :: "string \<Rightarrow> (nat \<times> nat \<times> nat) option" where
  "parse_isoformat_date d =
     (if length d = 10 \<and> list_all is_digit (take 4 d) \<and> d ! 4 = CHR ''-''
         \<and> list_all is_digit (take 2 (drop 5 d)) \<and> d ! 7 = CHR ''-''
         \<and> list_all is_digit (drop 8 d)
      then Some (nat_of_digits (take 4 d), nat_of_digits (take 2 (drop 5 d)),
                 nat_of_digits (drop 8 d))
      else None)"

definition two_digits :: "string \<Rightarrow> (nat \<times> string) option" where
  "two_digits s =
     (case s of
        a # b # r \<Rightarrow> if is_digit a \<and> is_digit b then Some (10 * digit_val a + digit_val b, r)
                     else None
      | _ \<Rightarrow> None)"

text \<open>\<open>HH[:MM[:SS[.fff[fff]]]]\<close>, the fraction counted in microseconds.\<close>

definition parse_fraction :: "string \<Rightarrow> nat option" where
  "parse_fraction f =
     (if list_all is_digit f \<and> length f = 3 then Some (nat_of_digits f * 1000)
      else if list_all is_digit f \<and> length f = 6 then Some (nat_of_digits f)
      else None)"

definition parse_hh_mm_ss_ff :: "string \<Rightarrow> (nat \<times> nat \<times> nat \<times> nat) option" where
  "parse_hh_mm_ss_ff t =
     (case two_digits t of
        None \<Rightarrow> None
      | Some (h, r1) \<Rightarrow>
          (case r1 of
             [] \<Rightarrow> Some (h, 0, 0, 0)
           | c1 # t2 \<Rightarrow>
               if c1 \<noteq> CHR '':'' then None
               else (case two_digits t2 of
                       None \<Rightarrow> None
                     | Some (m, r2) \<Rightarrow>
                         (case r2 of
                            [] \<Rightarrow> Some (h, m, 0, 0)
                          | c2 # t3 \<Rightarrow>
                              if c2 \<noteq> CHR '':'' then None
                              else (case two_digits t3 of
                                      None \<Rightarrow> None
                                    | Some (s, r3) \<Rightarrow>
                                        (case r3 of
                                           [] \<Rightarrow> Some (h, m, s, 0)
                                         | c3 # f \<Rightarrow>
                                             if c3 \<noteq> CHR ''.'' then None
                                             else (case parse_fraction f of
                                                     None \<Rightarrow> None
                                                   | Some us \<Rightarrow> Some (h, m, s, us))))))))"

definition is_sign :: "char \<Rightarrow> bool" where
  "is_sign c = (c = CHR ''+'' \<or> c = CHR ''-'')"

text \<open>The time of day and, after the first sign, the offset \<open>HH:MM[:SS[.ffffff]]\<close>.\<close>

definition parse_isoformat_time ::
  "string \<Rightarrow> ((nat \<times> nat \<times> nat \<times> nat) \<times> int option) option" where
  "parse_isoformat_time t =
     (let timestr = takeWhile (\<lambda>c. \<not> is_sign c) t;
          rest = dropWhile (\<lambda>c. \<not> is_sign c) t
      in case parse_hh_mm_ss_ff timestr of
           None \<Rightarrow> None
         | Some tc \<Rightarrow>
             (case rest of
                [] \<Rightarrow> Some (tc, None)
              | sg # tz \<Rightarrow>
                  if length tz \<noteq> 5 \<and> length tz \<noteq> 8 \<and> length tz \<noteq> 15 then None
                  else (case parse_hh_mm_ss_ff tz of
                          None \<Rightarrow> None
                        | Some (h, m, s, us) \<Rightarrow>
                            let off = (int h * 3600 + int m * 60 + int s) * 1000000 + int us
                            in Some (tc, Some (if sg = CHR ''-'' then - off else off)))))"

text \<open>An offset is strictly within a day of UTC, as \<open>timezone\<close> requires.\<close>

definition valid_offset :: "int option \<Rightarrow> bool" where
  "valid_offset tz = (case tz of None \<Rightarrow> True | Some off \<Rightarrow> \<bar>off\<bar> < 86400000000)"

definition fromisoformat :: "string \<Rightarrow> datetime option" where
  "fromisoformat s =
     (case parse_isoformat_date (take 10 s) of
        None \<Rightarrow> None
      | Some (y, mo, d) \<Rightarrow>
          (case (if length s = 10 then Some ((0, 0, 0, 0), None)
                 else parse_isoformat_time (drop 11 s)) of
             None \<Rightarrow> None
           | Some ((h, mi, sec, us), tz) \<Rightarrow>
               if 1 \<le> y \<and> y \<le> 9999 \<and> 1 \<le> mo \<and> mo \<le> 12 \<and> 1 \<le> d \<and> d \<le> days_in_month y mo
                  \<and> h < 24 \<and> mi < 60 \<and> sec < 60 \<and> valid_offset tz
               then Some \<lparr>year = y, month = mo, day = d, hour = h, minute = mi, second = sec,
                           microsecond = us, tzinfo = tz\<rparr>
               else None))"

text \<open>
  \<open>strftime\<close> in the C locale. \<open>%Y\<close> is written with four digits (the C library of
  some platforms prints a year before 1000 without the leading zeros); \<open>%Z\<close> is empty
  for a naive datetime, \<open>UTC\<close> at offset zero and \<open>UTC+HH:MM[:SS[.ffffff]]\<close> otherwise.
\<close>

definition month_name :: "nat \<Rightarrow> string" where
  "month_name m =
     [''January'', ''February'', ''March'', ''April'', ''May'', ''June'', ''July'',
      ''August'', ''September'', ''October'', ''November'', ''December''] ! (m - 1)"

definition pad2 :: "nat \<Rightarrow> string" where
  "pad2 n = zfill 2 (show_nat n)"

definition tzname :: "int option \<Rightarrow> string" where
  "tzname tz =
     (case tz of
        None \<Rightarrow> []
      | Some off \<Rightarrow>
          if off = 0 then ''UTC''
          else (let a = nat \<bar>off\<bar>;
                    hours = a div 3600000000;
                    minutes = a mod 3600000000 div 60000000;
                    seconds = a mod 60000000 div 1000000;
                    microseconds = a mod 1000000;
                    hm = ''UTC'' @ (if off < 0 then ''-'' else ''+'') @ pad2 hours @ '':''
                           @ pad2 minutes
                in if microseconds \<noteq> 0
                   then hm @ '':'' @ pad2 seconds @ ''.'' @ zfill 6 (show_nat microseconds)
                   else if seconds \<noteq> 0 then hm @ '':'' @ pad2 seconds
                   else hm))"

text \<open>\<open>dt.strftime("%B %d, %Y at %I:%M:%S %p %Z")\<close>\<close>

definition strftime_long :: "datetime \<Rightarrow> string" where
  "strftime_long dt =
     month_name (month dt) @ '' '' @ pad2 (day dt) @ '', '' @ zfill 4 (show_nat (year dt))
       @ '' at '' @ pad2 (if hour dt mod 12 = 0 then 12 else hour dt mod 12)
       @ '':'' @ pad2 (minute dt) @ '':'' @ pad2 (second dt)
       @ '' '' @ (if hour dt < 12 then ''AM'' else ''PM'') @ '' '' @ tzname (tzinfo dt)"

text \<open>\<open>dt.strftime("%d-%m-%Y")\<close>\<close>

definition strftime_dmy :: "datetime \<Rightarrow> string" where
  "strftime_dmy dt =
     pad2 (day dt) @ ''-'' @ pad2 (month dt) @ ''-'' @ zfill 4 (show_nat (year dt))"

section \<open>format_datetime\<close>

text \<open>
  \<^verbatim>\<open>
  def format_datetime(date_string):
      if not date_string:
          return "N/A"
      try:
          if date_string.endswith('Z'):
              date_string = date_string[:-1] + '+00:00'
          dt_object = datetime.fromisoformat(date_string.replace('Z', '+00:00'))
          return dt_object.strftime("%B %d, %Y at %I:%M:%S %p %Z")
      except ValueError as ve:
          rprint(...)
          return date_string
      except Exception as e:
          rprint(...)
          return "Error formatting date"
  \<close>
  The ValueError handler returns \<open>date_string\<close> as the \<open>try\<close> block left it, that is
  after the rebinding of a final \<open>Z\<close>. An object that is no str has no \<open>endswith\<close>:
  the AttributeError reaches the last handler. No exception leaves the function.
\<close>

definition format_datetime :: "json \<Rightarrow> string" where
  "format_datetime date_string =
     (if falsy date_string then ''N/A''
      else (case date_string of
              JStr s \<Rightarrow>
                (let s' = (if endswith_Z s then butlast s @ ''+00:00'' else s)
                 in case fromisoformat (replace_Z s') of
                      None \<Rightarrow> s'
                    | Some dt_object \<Rightarrow> strftime_long dt_object)
            | _ \<Rightarrow> ''Error formatting date''))"

section \<open>The provider\<close>

text \<open>
  What \<open>requests.get(url, ...)\<close> does is the environment's choice: it raises (the
  failure is named after the first handler of the program that catches it), or it
  returns a response with a status code, a body text and the value of
  \<open>response.json()\<close> (\<open>None\<close> when the body does not decode). The provider is a function
  of the URL.
\<close>

datatype request_failure = ConnectionError | Timeout | RequestException | OtherException

datatype http_result = Failed request_failure | Response nat string "json option"

text \<open>
  Both fetch functions return \<open>None\<close> on every failure, after printing a message. The
  model keeps which message: one constructor for each \<open>return None\<close> of the source.
  \<^item> \<open>CoinNotFound\<close>: "Coin not found on CoinGecko (404)" (the spec's NotFound);
  \<^item> \<open>HTTPError status text\<close>: "HTTP Error: ... - {response.text}" (NetworkError);
  \<^item> \<open>NetworkError\<close>, \<open>RequestTimeout\<close>, \<open>RequestError\<close>: the three handlers of the
    exceptions of \<open>requests\<close> (a body that does not decode raises one of them);
  \<^item> \<open>UnexpectedError\<close>: "An unexpected error occurred", the handler of \<open>Exception\<close>;
  \<^item> \<open>AthNotFound\<close>: "ATH price data not found" (MissingData);
  \<^item> \<open>NoPriceData\<close>: "No price data available" (NotFound of the historical price);
  \<^item> \<open>InvalidDateFormat\<close>: "Invalid date format" (InvalidDate).
\<close>

datatype fetch_error =
    CoinNotFound
  | HTTPError nat string
  | NetworkError
  | RequestTimeout
  | RequestError
  | UnexpectedError
  | AthNotFound
  | NoPriceData
  | InvalidDateFormat

definition request_error :: "request_failure \<Rightarrow> fetch_error" where
  "request_error f =
     (case f of ConnectionError \<Rightarrow> NetworkError | Timeout \<Rightarrow> RequestTimeout
      | RequestException \<Rightarrow> RequestError | OtherException \<Rightarrow> UnexpectedError)"

text \<open>\<open>response.raise_for_status()\<close> raises HTTPError for a status from 400 to 599.\<close>

definition raises_for_status :: "nat \<Rightarrow> bool" where
  "raises_for_status st = (400 \<le> st \<and> st < 600)"

section \<open>get_token_data\<close>

record token_data =
  name :: json
  symbol :: string
  ath_usd :: json
  ath_date :: string
  genesis_date :: string
  contract_address :: string
  coin_id :: json

definition token_url :: "string \<Rightarrow> string" where
  "token_url address =
     ''https://api.coingecko.com/api/v3/coins/solana/contract/'' @ address"

text \<open>
  The \<open>try\<close> block after \<open>data = response.json()\<close>:
  \<^verbatim>\<open>
        name = data.get('name', 'N/A')
        symbol = data.get('symbol', 'N/A')
        genesis_date_str = data.get('genesis_date')
        coin_id = data.get('id')
        market_data = data.get('market_data', {})
        ath_data = market_data.get('ath', {})
        ath_date_data = market_data.get('ath_date', {})
        ath_usd = ath_data.get('usd')
        ath_date_str = ath_date_data.get('usd')
        formatted_ath_date = format_datetime(ath_date_str)
        formatted_genesis_date = format_datetime(genesis_date_str)
        if ath_usd is None:
            rprint(...)
            return None
        return {"name": name, "symbol": symbol.upper() if symbol else 'N/A',
                "ath_usd": ath_usd, "ath_date": formatted_ath_date,
                "genesis_date": formatted_genesis_date,
                "contract_address": contract_address, "coin_id": coin_id}
  \<close>
  \<open>Inr None\<close> is the early \<open>return None\<close>; \<open>Inl\<close> an exception on its way to the handlers.
  (The parameters \<open>contract_address\<close> and \<open>coin_id\<close> of the source are written \<open>address\<close>
  and \<open>coin\<close>, the longer names being the fields of the record.)
\<close>

definition symbol_upper :: "json \<Rightarrow> exn + string" where
  "symbol_upper v =
     (if falsy v then Inr ''N/A''
      else (case v of JStr s \<Rightarrow> Inr (upper s) | _ \<Rightarrow> Inl AttributeError))"

definition token_of_json :: "string \<Rightarrow> json \<Rightarrow> exn + token_data option" where
  "token_of_json address data =
     bind_exn (py_get data ''name'' (JStr ''N/A'')) (\<lambda>name.
     bind_exn (py_get data ''symbol'' (JStr ''N/A'')) (\<lambda>symbol.
     bind_exn (py_get data ''genesis_date'' JNull) (\<lambda>genesis_date_str.
     bind_exn (py_get data ''id'' JNull) (\<lambda>coin_id.
     bind_exn (py_get data ''market_data'' (JObj [])) (\<lambda>market_data.
     bind_exn (py_get market_data ''ath'' (JObj [])) (\<lambda>ath_data.
     bind_exn (py_get market_data ''ath_date'' (JObj [])) (\<lambda>ath_date_data.
     bind_exn (py_get ath_data ''usd'' JNull) (\<lambda>ath_usd.
     bind_exn (py_get ath_date_data ''usd'' JNull) (\<lambda>ath_date_str.
       let formatted_ath_date = format_datetime ath_date_str;
           formatted_genesis_date = format_datetime genesis_date_str
       in if ath_usd = JNull then Inr None
          else bind_exn (symbol_upper symbol) (\<lambda>upper_symbol.
                 Inr (Some \<lparr>name = name, symbol = upper_symbol, ath_usd = ath_usd,
                             ath_date = formatted_ath_date,
                             genesis_date = formatted_genesis_date,
                             contract_address = address,
                             coin_id = coin_id\<rparr>)))))))))))"

text \<open>
  The whole function: the request, \<open>raise_for_status\<close>, the block above, and the
  handlers. The result comes with the URLs requested, in order.
\<close>

definition get_token_data ::
  "(string \<Rightarrow> http_result) \<Rightarrow> string \<Rightarrow> string list \<times> (fetch_error + token_data)" where
  "get_token_data http address =
     (let url = token_url address
      in ([url],
          (case http url of
             Failed f \<Rightarrow> Inl (request_error f)
           | Response status text js \<Rightarrow>
               if raises_for_status status
               then (if status = 404 then Inl CoinNotFound else Inl (HTTPError status text))
               else (case js of
                       None \<Rightarrow> Inl RequestError
                     | Some data \<Rightarrow>
                         (case token_of_json address data of
                            Inl e \<Rightarrow> Inl UnexpectedError
                          | Inr None \<Rightarrow> Inl AthNotFound
                          | Inr (Some token) \<Rightarrow> Inr token)))))"

section \<open>get_historical_price\<close>

definition history_url :: "(json \<Rightarrow> string) \<Rightarrow> json \<Rightarrow> string \<Rightarrow> string" where
  "history_url py_str coin formatted_date =
     ''https://api.coingecko.com/api/v3/coins/'' @ fstr py_str coin @ ''/history?date=''
       @ formatted_date"

text \<open>
  \<^verbatim>\<open>
        market_data = data.get('market_data', {})
        current_price = market_data.get('current_price', {})
        price_usd = current_price.get('usd')
        if price_usd is None:
            rprint(...)
            return None
        return price_usd
  \<close>
\<close>

definition price_of_json :: "json \<Rightarrow> exn + json option" where
  "price_of_json data =
     bind_exn (py_get data ''market_data'' (JObj [])) (\<lambda>market_data.
     bind_exn (py_get market_data ''current_price'' (JObj [])) (\<lambda>current_price.
     bind_exn (py_get current_price ''usd'' JNull) (\<lambda>price_usd.
       if price_usd = JNull then Inr None else Inr (Some price_usd))))"

text \<open>
  The date is parsed and formatted before anything is requested; the handler of
  ValueError around it returns \<open>None\<close> at once. Here a 404 has no message of its own.
\<close>

definition get_historical_price ::
  "(json \<Rightarrow> string) \<Rightarrow> (string \<Rightarrow> http_result) \<Rightarrow> json \<Rightarrow> string
     \<Rightarrow> string list \<times> (fetch_error + json)" where
  "get_historical_price py_str http coin date_str =
     (case fromisoformat (replace_Z date_str) of
        None \<Rightarrow> ([], Inl InvalidDateFormat)
      | Some dt \<Rightarrow>
          (let formatted_date = strftime_dmy dt;
               url = history_url py_str coin formatted_date
           in ([url],
               (case http url of
                  Failed f \<Rightarrow> Inl (request_error f)
                | Response status text js \<Rightarrow>
                    if raises_for_status status then Inl (HTTPError status text)
                    else (case js of
                            None \<Rightarrow> Inl RequestError
                          | Some data \<Rightarrow>
                              (case price_of_json data of
                                 Inl e \<Rightarrow> Inl UnexpectedError
                               | Inr None \<Rightarrow> Inl NoPriceData
                               | Inr (Some price_usd) \<Rightarrow> Inr price_usd))))))"

section \<open>calculate_return_percentage\<close>


section \<open>display_results\<close>

text \<open>
  What \<open>display_results\<close> prints: the notice that there is no token data, or the panel
  with its title and its content. The arguments are the token data (\<open>None\<close> for a
  falsy one), the historical price (\<open>JNull\<close> for \<open>None\<close>), the return percentage and the
  input date. A format that refuses its object raises out of the function.
\<close>

datatype display = No_token_data | Panel string string

definition ath_price_str :: "json \<Rightarrow> exn + string" where
  "ath_price_str ath =
     (if ath \<noteq> JNull then bind_exn (format_spec 8 ath) (\<lambda>s. Inr (''$'' @ s))
      else Inr ''[yellow]N/A[/yellow]'')"

definition base_content :: "(json \<Rightarrow> string) \<Rightarrow> token_data \<Rightarrow> string \<Rightarrow> string" where
  "base_content py_str token price_str =
     concat
       [''[bold]Name:[/bold] '', fstr py_str (name token), [CHR 0x0A],
        ''[bold]Symbol:[/bold] '', symbol token, [CHR 0x0A],
        ''[bold]Contract Address:[/bold] [cyan]'', contract_address token, ''[/cyan]'', [CHR 0x0A],
        ''--------------------'', [CHR 0x0A],
        ''[bold]ATH Price (USD):[/bold] [green]'', price_str, ''[/green]'', [CHR 0x0A],
        ''[bold]ATH Date:[/bold] '', ath_date token, [CHR 0x0A],
        ''--------------------'', [CHR 0x0A],
        ''[bold]CoinGecko Listing Date:[/bold] '', genesis_date token,
        '' [italic](Note: Not blockchain creation date)[/italic]'']"

definition historical_content :: "json \<Rightarrow> rat option \<Rightarrow> string \<Rightarrow> exn + string" where
  "historical_content historical_price return_percentage input_date =
     bind_exn (format_spec 8 historical_price) (\<lambda>h.
       Inr (concat
              [[CHR 0x0A], ''--------------------'', [CHR 0x0A],
               ''[bold]Historical Price (USD) on '', input_date, '':[/bold] [green]$'', h,
               ''[/green]'']
            @ (case return_percentage of
                 None \<Rightarrow> []
               | Some r \<Rightarrow>
                   concat [[CHR 0x0A], ''[bold]Return from '', input_date,
                           '' to ATH:[/bold] [green]'', format_f 2 r, ''%[/green]''])))"

definition display_results ::
  "(json \<Rightarrow> string) \<Rightarrow> token_data option \<Rightarrow> json \<Rightarrow> rat option \<Rightarrow> string option
     \<Rightarrow> exn + display" where
  "display_results py_str token_data historical_price return_percentage input_date =
     (case token_data of
        None \<Rightarrow> Inr No_token_data
      | Some token \<Rightarrow>
          bind_exn (ath_price_str (ath_usd token)) (\<lambda>price_str.
          bind_exn (case input_date of
                      None \<Rightarrow> Inr []
                    | Some d \<Rightarrow>
                        if historical_price \<noteq> JNull \<and> d \<noteq> []
                        then historical_content historical_price return_percentage d
                        else Inr []) (\<lambda>extra.
            Inr (Panel (''Token Information: '' @ fstr py_str (name token))
                       (base_content py_str token price_str @ extra)))))"

section \<open>The script\<close>







section \<open>Vocabulary of the properties\<close>

text \<open>
  The field of a response at a path of keys, as the provider documents it
  (\<open>market_data.ath.usd\<close>): \<open>JNull\<close> where a key is missing or the path leaves the
  objects. A field is \<open>absent\<close> when a key on its path is missing from its object
  or the field is null; a response whose path runs into something that is no object
  is malformed, not one that lacks the field.
\<close>

fun json_path :: "string list \<Rightarrow> json \<Rightarrow> json" where
  "json_path [] v = v"
| "json_path (k # ks) (JObj kvs) =
     (case map_of kvs k of None \<Rightarrow> JNull | Some v \<Rightarrow> json_path ks v)"
| "json_path (k # ks) _ = JNull"

fun absent :: "string list \<Rightarrow> json \<Rightarrow> bool" where
  "absent [] v = (v = JNull)"
| "absent (k # ks) (JObj kvs) = (case map_of kvs k of None \<Rightarrow> True | Some v \<Rightarrow> absent ks v)"
| "absent (k # ks) _ = False"




section \<open>Sample responses\<close>

text \<open>
  Two bodies of the contract-lookup endpoint, for the concrete runs below: the first
  has the all-time high with its date and no \<open>genesis_date\<close>, the second has the
  all-time high and nothing else under \<open>market_data\<close>.
\<close>

definition sample_json :: json where
  "sample_json =
     JObj [(''id'', JStr ''sample-coin''), (''symbol'', JStr ''smp''), (''name'', JStr ''Sample''),
           (''market_data'',
              JObj [(''ath'', JObj [(''usd'', JNum (5 / 2))]),
                    (''ath_date'', JObj [(''usd'', JStr ''2021-11-04T00:00:00.000Z'')])])]"


definition sample_token :: token_data where
  "sample_token =
     \<lparr>name = JStr ''Sample'', symbol = ''SMP'', ath_usd = JNum (5 / 2),
      ath_date = ''November 04, 2021 at 12:00:00 AM UTC'', genesis_date = ''N/A'',
      contract_address = ''addr'', coin_id = JStr ''sample-coin''\<rparr>"

text \<open>A body of the history endpoint with the price 0.5.\<close>

definition sample_history_json :: json where
  "sample_history_json =
     JObj [(''market_data'', JObj [(''current_price'', JObj [(''usd'', JNum (1 / 2))])])]"




section \<open>Lemmas\<close>

subsection \<open>Digits, rounding and the value of a decimal text\<close>

lemma show_nat_small: "n < 10 \<Longrightarrow> show_nat n = [digit_char n]"
  by (subst show_nat.simps) simp

lemma show_nat_big: "10 \<le> n \<Longrightarrow> show_nat n = show_nat (n div 10) @ [digit_char (n mod 10)]"
  by (subst show_nat.simps) simp























subsection \<open>Reading a token out of a response\<close>

lemmas text_eval = show_nat_small show_nat_big digit_char_def zfill_def is_digit_def
  digit_val_def nat_of_digits_def pad2_def

lemmas parse_eval = fromisoformat_def parse_isoformat_date_def parse_isoformat_time_def
  parse_hh_mm_ss_ff_def two_digits_def parse_fraction_def is_sign_def valid_offset_def
  days_in_month_def is_leap_def

lemma bind_exn_Inr: "bind_exn m f = Inr r \<longleftrightarrow> (\<exists>v. m = Inr v \<and> f v = Inr r)"
  by (cases m) (simp_all add: bind_exn_def)

lemma bind_exn_simps: "bind_exn (Inr v) f = f v" "bind_exn (Inl e) f = Inl e"
  by (simp_all add: bind_exn_def)

lemma bind_py_get_InrE:
  assumes "bind_exn (py_get d k dflt) f = Inr r"
  obtains kvs where "d = JObj kvs" "f (lookup_or kvs k dflt) = Inr r"
  using assms by (cases d) (simp_all add: bind_exn_def)

lemma json_path_step:
  "lookup_or kvs k (JObj []) = JObj m \<Longrightarrow>
     json_path (k # k' # ks) (JObj kvs) = json_path (k' # ks) (JObj m)"
  by (auto simp: lookup_or_def split: option.splits)

lemma json_path_last: "json_path [k] (JObj kvs) = lookup_or kvs k JNull"
  by (simp add: lookup_or_def split: option.splits)

lemma token_of_json_fields:
  assumes "token_of_json a data = Inr (Some td)"
  shows "py_get data ''name'' (JStr ''N/A'') = Inr (name td)"
    and "\<exists>s. py_get data ''symbol'' (JStr ''N/A'') = Inr s \<and> symbol_upper s = Inr (symbol td)"
    and "ath_usd td = json_path [''market_data'', ''ath'', ''usd''] data"
    and "ath_usd td \<noteq> JNull"
    and "ath_date td = format_datetime (json_path [''market_data'', ''ath_date'', ''usd''] data)"
    and "genesis_date td = format_datetime (json_path [''genesis_date''] data)"
    and "contract_address td = a"
    and "coin_id td = json_path [''id''] data"
  using assms unfolding token_of_json_def
  by (elim bind_py_get_InrE;
      auto simp: Let_def bind_exn_Inr json_path_step json_path_last simp del: json_path.simps
           split: if_splits)+

lemma get_token_data_InrD:
  assumes "http (token_url a) = Response st body (Some data)" "\<not> raises_for_status st"
    and "snd (get_token_data http a) = Inr td"
  shows "token_of_json a data = Inr (Some td)"
  using assms by (simp add: get_token_data_def split: sum.splits option.splits)

lemma sublist_concat_adj: "sublist (a @ b) (concat (ps @ a # b # ss))"
proof -
  have "concat (ps @ a # b # ss) = concat ps @ (a @ b) @ concat ss" by simp
  then show ?thesis unfolding sublist_def by blast
qed

lemma sublist_append_left: "sublist x ys \<Longrightarrow> sublist x (ys @ zs)"
  unfolding sublist_def by (metis append.assoc)

lemma display_results_PanelD:
  assumes "display_results py_str (Some td) h r d = Inr (Panel t c)"
  shows "\<exists>p extra. ath_price_str (ath_usd td) = Inr p \<and> c = base_content py_str td p @ extra"
  using assms by (auto simp: display_results_def bind_exn_Inr)

subsection \<open>The sample responses\<close>

lemma ex_parse_sample: "fromisoformat ''2021-11-04T00:00:00.000+00:00'' =
  Some \<lparr>year = 2021, month = 11, day = 4, hour = 0, minute = 0, second = 0, microsecond = 0,
        tzinfo = Some 0\<rparr>"
  by (simp add: parse_eval text_eval)

lemma format_datetime_sample:
  "format_datetime (JStr ''2021-11-04T00:00:00.000Z'') = ''November 04, 2021 at 12:00:00 AM UTC''"
  by (simp add: format_datetime_def endswith_Z_def replace_Z_def ex_parse_sample
        strftime_long_def month_name_def tzname_def text_eval)

lemma format_datetime_null: "format_datetime JNull = ''N/A''"
  by (simp add: format_datetime_def)

lemmas token_eval = token_of_json_def bind_exn_simps lookup_or_def symbol_upper_def upper_def
  upper_char_def format_datetime_null format_datetime_sample Let_def

lemma token_of_sample: "token_of_json ''addr'' sample_json = Inr (Some sample_token)"
  by (simp add: sample_json_def sample_token_def token_eval)


subsection \<open>The content of a panel\<close>

lemma format_f_sample: "format_f 8 (5 / 2) = ''2.50000000''"
  by (simp add: format_f_def round_half_even_def text_eval)

lemma ath_price_str_sample: "ath_price_str (JNum (5 / 2)) = Inr ''$2.50000000''"
  by (simp add: ath_price_str_def bind_exn_simps format_f_sample)

lemma sublist_price:
  "sublist (''[green]'' @ p @ ''[/green]'') (base_content py_str td p @ extra)"
proof -
  have "base_content py_str td p =
          concat ([''[bold]Name:[/bold] '', fstr py_str (name td), [CHR 0x0A],
                   ''[bold]Symbol:[/bold] '', symbol td, [CHR 0x0A],
                   ''[bold]Contract Address:[/bold] [cyan]'', contract_address td, ''[/cyan]'',
                   [CHR 0x0A], ''--------------------'', [CHR 0x0A],
                   ''[bold]ATH Price (USD):[/bold] ''] @
                  ''[green]'' # (p @ ''[/green]'') #
                  [[CHR 0x0A], ''[bold]ATH Date:[/bold] '', ath_date td, [CHR 0x0A],
                   ''--------------------'', [CHR 0x0A],
                   ''[bold]CoinGecko Listing Date:[/bold] '', genesis_date td,
                   '' [italic](Note: Not blockchain creation date)[/italic]''])"
    by (simp add: base_content_def)
  then have "sublist (''[green]'' @ (p @ ''[/green]'')) (base_content py_str td p)"
    by (simp only: sublist_concat_adj)
  then show ?thesis by (rule sublist_append_left)
qed

lemma sublist_ath_date:
  "sublist (''[bold]ATH Date:[/bold] '' @ ath_date td) (base_content py_str td p @ extra)"
proof -
  have "base_content py_str td p =
          concat ([''[bold]Name:[/bold] '', fstr py_str (name td), [CHR 0x0A],
                   ''[bold]Symbol:[/bold] '', symbol td, [CHR 0x0A],
                   ''[bold]Contract Address:[/bold] [cyan]'', contract_address td, ''[/cyan]'',
                   [CHR 0x0A], ''--------------------'', [CHR 0x0A],
                   ''[bold]ATH Price (USD):[/bold] [green]'', p, ''[/green]'', [CHR 0x0A]] @
                  ''[bold]ATH Date:[/bold] '' # ath_date td #
                  [[CHR 0x0A], ''--------------------'', [CHR 0x0A],
                   ''[bold]CoinGecko Listing Date:[/bold] '', genesis_date td,
                   '' [italic](Note: Not blockchain creation date)[/italic]''])"
    by (simp add: base_content_def)
  then have "sublist (''[bold]ATH Date:[/bold] '' @ ath_date td) (base_content py_str td p)"
    by (simp only: sublist_concat_adj)
  then show ?thesis by (rule sublist_append_left)
qed

lemma sublist_listing_date:
  "sublist (''[bold]CoinGecko Listing Date:[/bold] '' @ genesis_date td)
     (base_content py_str td p @ extra)"
proof -
  have "base_content py_str td p =
          concat ([''[bold]Name:[/bold] '', fstr py_str (name td), [CHR 0x0A],
                   ''[bold]Symbol:[/bold] '', symbol td, [CHR 0x0A],
                   ''[bold]Contract Address:[/bold] [cyan]'', contract_address td, ''[/cyan]'',
                   [CHR 0x0A], ''--------------------'', [CHR 0x0A],
                   ''[bold]ATH Price (USD):[/bold] [green]'', p, ''[/green]'', [CHR 0x0A],
                   ''[bold]ATH Date:[/bold] '', ath_date td, [CHR 0x0A],
                   ''--------------------'', [CHR 0x0A]] @
                  ''[bold]CoinGecko Listing Date:[/bold] '' # genesis_date td #
                  ['' [italic](Note: Not blockchain creation date)[/italic]''])"
    by (simp add: base_content_def)
  then have "sublist (''[bold]CoinGecko Listing Date:[/bold] '' @ genesis_date td)
               (base_content py_str td p)"
    by (simp only: sublist_concat_adj)
  then show ?thesis by (rule sublist_append_left)
qed

lemma display_results_first:
  "display_results py_str (Some td) JNull None None =
     bind_exn (ath_price_str (ath_usd td)) (\<lambda>p.
       Inr (Panel (''Token Information: '' @ fstr py_str (name td)) (base_content py_str td p)))"
  by (simp add: display_results_def bind_exn_simps)

subsection \<open>The listing date\<close>

lemma lookup_or_other: "k \<noteq> k' \<Longrightarrow> lookup_or ((k', g) # kvs) k d = lookup_or kvs k d"
  by (simp add: lookup_or_def)

lemma map_sum_bind_exn: "map_sum id g (bind_exn m f) = bind_exn m (\<lambda>x. map_sum id g (f x))"
  by (cases m) (simp_all add: bind_exn_def)

lemma token_of_json_genesis:
  assumes "absent [''genesis_date''] (JObj kvs)"
  shows "token_of_json a (JObj kvs) =
           map_sum id (map_option (\<lambda>t. t\<lparr>genesis_date := ''N/A''\<rparr>))
             (token_of_json a (JObj ((''genesis_date'', g) # kvs)))"
proof -
  have g: "lookup_or kvs ''genesis_date'' JNull = JNull"
    using assms by (simp add: lookup_or_def split: option.splits)
  show ?thesis
    unfolding token_of_json_def
    by (simp add: bind_exn_simps lookup_or_other map_sum_bind_exn Let_def g format_datetime_null
          if_distrib [of "map_sum id (map_option (\<lambda>t. t\<lparr>genesis_date := ''N/A''\<rparr>))"]
          cong: if_cong)
qed


lemma isl_display_results_genesis:
  "isl (display_results py_str (Some (td\<lparr>genesis_date := x\<rparr>)) h r d) =
     isl (display_results py_str (Some td) h r d)"
  by (simp add: display_results_def bind_exn_def split: sum.splits option.splits)

subsection \<open>The historical price\<close>




lemma get_historical_price_parsed:
  assumes "fromisoformat (replace_Z date_str) = Some dt"
  shows "get_historical_price py_str http coin date_str =
           ([history_url py_str coin (strftime_dmy dt)],
            (case http (history_url py_str coin (strftime_dmy dt)) of
               Failed f \<Rightarrow> Inl (request_error f)
             | Response status text js \<Rightarrow>
                 if raises_for_status status then Inl (HTTPError status text)
                 else (case js of
                         None \<Rightarrow> Inl RequestError
                       | Some data \<Rightarrow>
                           (case price_of_json data of
                              Inl e \<Rightarrow> Inl UnexpectedError
                            | Inr None \<Rightarrow> Inl NoPriceData
                            | Inr (Some price_usd) \<Rightarrow> Inr price_usd))))"
  using assms by (simp add: get_historical_price_def Let_def)




lemma ex_parse_morning: "fromisoformat ''2023-01-15 10:30:00'' =
  Some \<lparr>year = 2023, month = 1, day = 15, hour = 10, minute = 30, second = 0, microsecond = 0,
        tzinfo = None\<rparr>"
  by (simp add: parse_eval text_eval)

lemma ex_parse_evening: "fromisoformat ''2023-01-15T23:59:59+00:00'' =
  Some \<lparr>year = 2023, month = 1, day = 15, hour = 23, minute = 59, second = 59, microsecond = 0,
        tzinfo = Some 0\<rparr>"
  by (simp add: parse_eval text_eval)



lemma replace_Z_morning: "replace_Z ''2023-01-15 10:30:00'' = ''2023-01-15 10:30:00''"
  by (simp add: replace_Z_def)

lemma replace_Z_evening: "replace_Z ''2023-01-15T23:59:59Z'' = ''2023-01-15T23:59:59+00:00''"
  by (simp add: replace_Z_def)


lemma price_of_sample: "price_of_json sample_history_json = Inr (Some (JNum (1 / 2)))"
  by (simp add: sample_history_json_def price_of_json_def bind_exn_simps lookup_or_def)

lemma history_sample:
  "get_historical_price (\<lambda>v. []) (\<lambda>url. Response 200 [] (Some sample_history_json))
     (JStr ''sample-coin'') ''2023-01-15 10:30:00'' =
   ([''https://api.coingecko.com/api/v3/coins/sample-coin/history?date=15-01-2023''],
    Inr (JNum (1 / 2)))"
  by (simp add: get_historical_price_def replace_Z_morning ex_parse_morning strftime_dmy_def
        text_eval history_url_def fstr_def raises_for_status_def price_of_sample)

subsection \<open>Runs of the script\<close>

















section \<open>Properties\<close>













text \<open>
  C6. A response with the all-time high \<open>2.5\<close> dated \<open>2021-11-04T00:00:00.000Z\<close> gives token
  data whose report is printed and shows the price to eight decimals, \<open>$2.50000000\<close>,
  and the date as \<open>November 04, 2021 at 12:00:00 AM UTC\<close>; so does every later panel
  of the same token.
\<close>

theorem report_shows_ath:
  assumes "http (token_url a) = Response st body (Some data)" and "\<not> raises_for_status st"
    and "json_path [''market_data'', ''ath'', ''usd''] data = JNum (5 / 2)"
    and "json_path [''market_data'', ''ath_date'', ''usd''] data = JStr ''2021-11-04T00:00:00.000Z''"
    and "snd (get_token_data http a) = Inr td"
  shows "(\<exists>title content. display_results py_str (Some td) JNull None None = Inr (Panel title content))
       \<and> (\<forall>h r d title content.
            display_results py_str (Some td) h r d = Inr (Panel title content) \<longrightarrow>
              sublist ''[green]$2.50000000[/green]'' content
            \<and> sublist ''[bold]ATH Date:[/bold] November 04, 2021 at 12:00:00 AM UTC'' content)"
proof -
  note tok = get_token_data_InrD [of http a st body data td, OF assms(1,2,5)]
  have price: "ath_usd td = JNum (5 / 2)"
    using token_of_json_fields(3) [OF tok] assms(3) by simp
  have date: "ath_date td = ''November 04, 2021 at 12:00:00 AM UTC''"
    using token_of_json_fields(5) [OF tok] assms(4) by (simp add: format_datetime_sample)
  have first: "\<exists>title content. display_results py_str (Some td) JNull None None = Inr (Panel title content)"
    by (simp add: display_results_first price ath_price_str_sample bind_exn_simps)
  have shown: "sublist ''[green]$2.50000000[/green]'' content
            \<and> sublist ''[bold]ATH Date:[/bold] November 04, 2021 at 12:00:00 AM UTC'' content"
    if "display_results py_str (Some td) h r d = Inr (Panel title content)"
    for h r d title content
  proof -
    from display_results_PanelD [OF that] obtain p extra
      where p: "ath_price_str (ath_usd td) = Inr p"
        and c: "content = base_content py_str td p @ extra" by blast
    from p have p': "p = ''$2.50000000''" by (simp add: price ath_price_str_sample)
    show ?thesis
      using sublist_price [of p py_str td extra] sublist_ath_date [of td py_str p extra]
      by (simp add: c p' date)
  qed
  from first shown show ?thesis by blast
qed

text \<open>The theorem at the first sample response.\<close>

theorem report_shows_ath_witness:
  "json_path [''market_data'', ''ath'', ''usd''] sample_json = JNum (5 / 2)
   \<and> json_path [''market_data'', ''ath_date'', ''usd''] sample_json = JStr ''2021-11-04T00:00:00.000Z''
   \<and> snd (get_token_data (\<lambda>url. Response 200 [] (Some sample_json)) ''addr'') = Inr sample_token
   \<and> (\<exists>title content.
         display_results (\<lambda>v. []) (Some sample_token) JNull None None = Inr (Panel title content)
       \<and> sublist ''[green]$2.50000000[/green]'' content
       \<and> sublist ''[bold]ATH Date:[/bold] November 04, 2021 at 12:00:00 AM UTC'' content)"
proof -
  have j: "json_path [''market_data'', ''ath'', ''usd''] sample_json = JNum (5 / 2)"
     "json_path [''market_data'', ''ath_date'', ''usd''] sample_json = JStr ''2021-11-04T00:00:00.000Z''"
    by (simp_all add: sample_json_def)
  have g: "snd (get_token_data (\<lambda>url. Response 200 [] (Some sample_json)) ''addr'') = Inr sample_token"
    by (simp add: get_token_data_def raises_for_status_def token_of_sample)
  have r: "\<not> raises_for_status 200" by (simp add: raises_for_status_def)
  from report_shows_ath [of "\<lambda>url. Response 200 [] (Some sample_json)" "''addr''" 200 "[]"
      sample_json sample_token "\<lambda>v. []", OF refl r j g]
  show ?thesis using j g by blast
qed



text \<open>
  C8. When the response has no \<open>genesis_date\<close> (or a null one), the token that
  get_token_data returns has the listing date \<open>N/A\<close>, and every panel of it shows
  \<open>N/A\<close> as the listing date. No error comes from the absence: the fetch ends as it
  would with the field present (the same failure, or the same token but for the
  listing date), and whether display_results raises does not depend on the listing
  date.
\<close>

theorem absent_genesis_date:
  assumes "http (token_url a) = Response st body (Some (JObj kvs))"
    and "\<not> raises_for_status st"
    and "absent [''genesis_date''] (JObj kvs)"
  shows "(\<forall>td. snd (get_token_data http a) = Inr td \<longrightarrow>
            genesis_date td = ''N/A''
          \<and> (\<forall>h r d title content.
                display_results py_str (Some td) h r d = Inr (Panel title content) \<longrightarrow>
                sublist ''[bold]CoinGecko Listing Date:[/bold] N/A'' content))
       \<and> (\<forall>g. snd (get_token_data http a) =
                 map_sum id (\<lambda>t. t\<lparr>genesis_date := ''N/A''\<rparr>)
                   (snd (get_token_data
                           (\<lambda>u. if u = token_url a
                                 then Response st body (Some (JObj ((''genesis_date'', g) # kvs)))
                                 else http u) a)))
       \<and> (\<forall>td x h r d.
             isl (display_results py_str (Some (td\<lparr>genesis_date := x\<rparr>)) h r d) =
             isl (display_results py_str (Some td) h r d))"
proof (intro conjI allI impI)
  fix td
  assume ok: "snd (get_token_data http a) = Inr td"
  note tok = get_token_data_InrD [of http a st body "JObj kvs" td, OF assms(1,2) ok]
  have "json_path [''genesis_date''] (JObj kvs) = JNull"
    using assms(3) by (simp split: option.splits)
  then show g: "genesis_date td = ''N/A''"
    using token_of_json_fields(6) [OF tok] by (simp add: format_datetime_null)
  fix h r d title content
  assume "display_results py_str (Some td) h r d = Inr (Panel title content)"
  from display_results_PanelD [OF this] obtain p extra
    where c: "content = base_content py_str td p @ extra" by blast
  show "sublist ''[bold]CoinGecko Listing Date:[/bold] N/A'' content"
    using sublist_listing_date [of td py_str p extra] by (simp add: c g)
next
  fix g
  show "snd (get_token_data http a) =
          map_sum id (\<lambda>t. t\<lparr>genesis_date := ''N/A''\<rparr>)
            (snd (get_token_data
                    (\<lambda>u. if u = token_url a
                          then Response st body (Some (JObj ((''genesis_date'', g) # kvs)))
                          else http u) a))"
    using assms(1,2)
    by (simp add: get_token_data_def token_of_json_genesis [OF assms(3), of a g]
          split: sum.splits option.splits)
next
  fix td x h r d
  show "isl (display_results py_str (Some (td\<lparr>genesis_date := x\<rparr>)) h r d) =
        isl (display_results py_str (Some td) h r d)"
    by (rule isl_display_results_genesis)
qed

text \<open>The theorem at the first sample response, which has no \<open>genesis_date\<close>.\<close>

theorem absent_genesis_date_witness:
  "absent [''genesis_date''] sample_json
   \<and> snd (get_token_data (\<lambda>url. Response 200 [] (Some sample_json)) ''addr'') = Inr sample_token
   \<and> genesis_date sample_token = ''N/A''
   \<and> (\<exists>title content.
         display_results (\<lambda>v. []) (Some sample_token) JNull None None = Inr (Panel title content)
       \<and> sublist ''[bold]CoinGecko Listing Date:[/bold] N/A'' content)"
proof -
  define kvs where "kvs =
     [(''id'', JStr ''sample-coin''), (''symbol'', JStr ''smp''), (''name'', JStr ''Sample''),
      (''market_data'',
         JObj [(''ath'', JObj [(''usd'', JNum (5 / 2))]),
               (''ath_date'', JObj [(''usd'', JStr ''2021-11-04T00:00:00.000Z'')])])]"
  have s: "sample_json = JObj kvs" by (simp add: sample_json_def kvs_def)
  have a: "absent [''genesis_date''] (JObj kvs)" by (simp add: kvs_def)
  have g: "snd (get_token_data (\<lambda>url. Response 200 [] (Some (JObj kvs))) ''addr'') = Inr sample_token"
    by (simp add: get_token_data_def raises_for_status_def token_of_sample flip: s)
  have r: "\<not> raises_for_status 200" by (simp add: raises_for_status_def)
  obtain title content
    where d: "display_results (\<lambda>v. []) (Some sample_token) JNull None None = Inr (Panel title content)"
    by (simp add: display_results_first sample_token_def ath_price_str_sample bind_exn_simps)
  note th = absent_genesis_date [of "\<lambda>url. Response 200 [] (Some (JObj kvs))" "''addr''" 200 "[]"
      kvs "\<lambda>v. []", OF refl r a]
  note c1 = th [THEN conjunct1, rule_format, OF g]
  have "sublist ''[bold]CoinGecko Listing Date:[/bold] N/A'' content"
    by (rule c1 [THEN conjunct2, rule_format, OF d])
  with d c1 a g show ?thesis unfolding s by blast
qed




text \<open>
  C10. The historical-price lookup depends on the calendar date of the timestamp only:
  two timestamps that parse to the same year, month and day make get_historical_price
  issue the same request and, the provider being a function of the URL, return the
  same result. The date is the one written in the timestamp, in its own offset.
\<close>

theorem same_day_same_request:
  assumes "fromisoformat (replace_Z s1) = Some d1" and "fromisoformat (replace_Z s2) = Some d2"
    and "year d1 = year d2" and "month d1 = month d2" and "day d1 = day d2"
  shows "get_historical_price py_str http coin s1 = get_historical_price py_str http coin s2"
proof -
  have "strftime_dmy d1 = strftime_dmy d2"
    using assms(3-5) by (simp add: strftime_dmy_def)
  then show ?thesis
    by (simp add: get_historical_price_parsed [OF assms(1)] get_historical_price_parsed [OF assms(2)])
qed

text \<open>The theorem at a morning and an evening of 15 January 2023.\<close>

theorem same_day_same_request_witness:
  "fromisoformat (replace_Z ''2023-01-15 10:30:00'') =
     Some \<lparr>year = 2023, month = 1, day = 15, hour = 10, minute = 30, second = 0,
           microsecond = 0, tzinfo = None\<rparr>
   \<and> fromisoformat (replace_Z ''2023-01-15T23:59:59Z'') =
     Some \<lparr>year = 2023, month = 1, day = 15, hour = 23, minute = 59, second = 59,
           microsecond = 0, tzinfo = Some 0\<rparr>
   \<and> get_historical_price (\<lambda>v. []) (\<lambda>url. Response 200 [] (Some sample_history_json))
        (JStr ''sample-coin'') ''2023-01-15T23:59:59Z'' =
      get_historical_price (\<lambda>v. []) (\<lambda>url. Response 200 [] (Some sample_history_json))
        (JStr ''sample-coin'') ''2023-01-15 10:30:00''
   \<and> fst (get_historical_price (\<lambda>v. []) (\<lambda>url. Response 200 [] (Some sample_history_json))
        (JStr ''sample-coin'') ''2023-01-15T23:59:59Z'') =
      [''https://api.coingecko.com/api/v3/coins/sample-coin/history?date=15-01-2023'']"
proof -
  have a: "fromisoformat (replace_Z ''2023-01-15 10:30:00'') =
     Some \<lparr>year = 2023, month = 1, day = 15, hour = 10, minute = 30, second = 0,
           microsecond = 0, tzinfo = None\<rparr>"
    by (simp add: replace_Z_morning ex_parse_morning)
  have b: "fromisoformat (replace_Z ''2023-01-15T23:59:59Z'') =
     Some \<lparr>year = 2023, month = 1, day = 15, hour = 23, minute = 59, second = 59,
           microsecond = 0, tzinfo = Some 0\<rparr>"
    by (simp add: replace_Z_evening ex_parse_evening)
  have e: "get_historical_price (\<lambda>v. []) (\<lambda>url. Response 200 [] (Some sample_history_json))
        (JStr ''sample-coin'') ''2023-01-15T23:59:59Z'' =
      get_historical_price (\<lambda>v. []) (\<lambda>url. Response 200 [] (Some sample_history_json))
        (JStr ''sample-coin'') ''2023-01-15 10:30:00''"
    by (rule same_day_same_request [OF b a]) simp_all
  show ?thesis
    unfolding e using a b by (simp add: history_sample)
qed

end
